theory Spec2Isabelle
  imports Main
begin

unbundle bit_operations_syntax

section \<open>Python strings and integers\<close>

text \<open>
  A Python \<open>str\<close> is modelled as a \<open>string\<close> whose characters are the code points
  below 256 (Latin-1); in that range \<open>str.lower\<close> maps character by character, the
  only decimal digits are the ASCII ones, and the white space is the set listed below.
  Python integers are unbounded and are modelled as \<open>int\<close>.
\<close>

definition ord :: "char \<Rightarrow> nat" where
  "ord c = of_char c"

text \<open>\<open>str.isspace\<close>, the characters removed by \<open>str.strip()\<close>.\<close>

definition isspace :: "char \<Rightarrow> bool" where
  "isspace c = (let n = ord c in
     (9 \<le> n \<and> n \<le> 13) \<or> (28 \<le> n \<and> n \<le> 31) \<or> n = 32 \<or> n = 133 \<or> n = 160)"

definition strip :: "string \<Rightarrow> string" where
  "strip s = rev (dropWhile isspace (rev (dropWhile isspace s)))"

text \<open>\<open>s.lstrip(c)\<close> for a one-character argument.\<close>

definition lstrip_char :: "char \<Rightarrow> string \<Rightarrow> string" where
  "lstrip_char c s = dropWhile (\<lambda>x. x = c) s"

definition lower_char :: "char \<Rightarrow> char" where
  "lower_char c = (let n = ord c in
     if (65 \<le> n \<and> n \<le> 90) \<or> (192 \<le> n \<and> n \<le> 222 \<and> n \<noteq> 215)
     then char_of (n + 32) else c)"

definition lower :: "string \<Rightarrow> string" where
  "lower s = map lower_char s"

text \<open>\<open>s.startswith(p)\<close>.\<close>

definition startswith :: "string \<Rightarrow> string \<Rightarrow> bool" where
  "startswith s p = (take (length p) s = p)"

text \<open>
  The value of a character as a base-16 digit, as \<open>int(v, 16)\<close> reads it:
  \<open>0\<close>..\<open>9\<close>, \<open>a\<close>..\<open>f\<close> and \<open>A\<close>..\<open>F\<close>.
\<close>

definition hex_value :: "char \<Rightarrow> nat option" where
  "hex_value c = (let n = ord c in
     if 48 \<le> n \<and> n \<le> 57 then Some (n - 48)
     else if 97 \<le> n \<and> n \<le> 102 then Some (n - 87)
     else if 65 \<le> n \<and> n \<le> 70 then Some (n - 55)
     else None)"

text \<open>
  The white space that \<open>int(v, 16)\<close> skips around the number: the ASCII characters
  tab to carriage return and the blank, and the non-ASCII white space (which is turned
  into a blank before parsing). The separators 28..31 are stripped by \<open>str.strip\<close> but
  are not skipped here.
\<close>

definition int_space :: "char \<Rightarrow> bool" where
  "int_space c = (let n = ord c in
     (9 \<le> n \<and> n \<le> 13) \<or> n = 32 \<or> n = 133 \<or> n = 160)"

text \<open>
  The digit scan of \<open>int(v, 16)\<close>: hex digits, with single underscores allowed between
  digits. The flag says whether the previous character was an underscore. The result is
  the number read and the rest of the input; \<open>None\<close> stands for \<open>ValueError\<close>.
\<close>

fun scan16 :: "bool \<Rightarrow> int \<Rightarrow> string \<Rightarrow> (int \<times> string) option" where
  "scan16 prev_us acc [] = (if prev_us then None else Some (acc, []))"
| "scan16 prev_us acc (c # cs) =
     (if c = CHR ''_'' then (if prev_us then None else scan16 True acc cs)
      else case hex_value c of
             Some d \<Rightarrow> scan16 False (16 * acc + int d) cs
           | None \<Rightarrow> (if prev_us then None else Some (acc, c # cs)))"

text \<open>
  \<open>int(v, 16)\<close>: leading white space, an optional sign, an optional \<open>0x\<close> or \<open>0X\<close>
  (after which one underscore may follow), at least one digit, trailing white space.
  \<open>None\<close> stands for \<open>ValueError\<close>.
\<close>

definition skip_sign :: "string \<Rightarrow> bool \<times> string" where
  "skip_sign s = (case s of
       [] \<Rightarrow> (False, [])
     | c # r \<Rightarrow> if c = CHR ''+'' then (False, r)
                else if c = CHR ''-'' then (True, r) else (False, s))"

definition skip_0x :: "string \<Rightarrow> string" where
  "skip_0x s = (case s of
       a # b # r \<Rightarrow>
         if a = CHR ''0'' \<and> (b = CHR ''x'' \<or> b = CHR ''X'')
         then (case r of u # r' \<Rightarrow> if u = CHR ''_'' then r' else r | [] \<Rightarrow> r)
         else s
     | _ \<Rightarrow> s)"

definition int16 :: "string \<Rightarrow> int option" where
  "int16 s = (let (neg, s2) = skip_sign (dropWhile int_space s); s3 = skip_0x s2 in
     case s3 of
       [] \<Rightarrow> None
     | c # _ \<Rightarrow>
        if hex_value c = None then None
        else (case scan16 False 0 s3 of
                None \<Rightarrow> None
              | Some (n, rest) \<Rightarrow>
                  if dropWhile int_space rest = []
                  then Some (if neg then - n else n) else None))"

text \<open>\<open>str(n)\<close> for an integer, and the format \<open>04d\<close> (zero padding to width 4,
  the sign counted in the width).\<close>

definition digit_char :: "nat \<Rightarrow> char" where
  "digit_char d = char_of (48 + d)"

fun str_nat :: "nat \<Rightarrow> string" where
  "str_nat n = (if n < 10 then [digit_char n]
                else str_nat (n div 10) @ [digit_char (n mod 10)])"

declare str_nat.simps [simp del]

definition str_int :: "int \<Rightarrow> string" where
  "str_int i = (if i < 0 then CHR ''-'' # str_nat (nat (- i)) else str_nat (nat i))"

definition zfill :: "nat \<Rightarrow> string \<Rightarrow> string" where
  "zfill w ds = replicate (w - length ds) (CHR ''0'') @ ds"

definition format_04d :: "int \<Rightarrow> string" where
  "format_04d i = (if i < 0 then CHR ''-'' # zfill 3 (str_nat (nat (- i)))
                   else zfill 4 (str_nat (nat i)))"

section \<open>Configuration\<close>

text \<open>
  \<open>CONFIG\<close> is read once from \<open>config.json\<close>. The model keeps the entries the ticket
  code and \<open>parse_color\<close> read. A text entry is \<open>None\<close> when its key is missing (a
  missing \<open>brand\<close> or \<open>tickets\<close> section makes all its keys missing) and \<open>Some s\<close>
  when it is the string \<open>s\<close>. An id entry is read with \<open>int(x) if x else None\<close>:
  it is unset (missing, empty, null or zero), or \<open>int\<close> raises \<open>ValueError\<close> on it,
  or \<open>int\<close> yields a number.
\<close>

datatype cfg_id = IdUnset | IdMalformed | IdValue int

record config =
  brand_color :: "string option"
  category_id :: cfg_id
  support_role_id :: cfg_id
  transcripts_channel_id :: cfg_id
  ticket_prefix :: "string option"

text \<open>Python truthiness of an optional string: \<open>None\<close> and \<open>""\<close> are false.\<close>

definition truthy :: "string option \<Rightarrow> string option" where
  "truthy v = (case v of None \<Rightarrow> None | Some s \<Rightarrow> if s = [] then None else Some s)"

section \<open>Colours\<close>

definition COLOR_MAP :: "(string \<times> int) list" where
  "COLOR_MAP =
    [(''orange'', 0xD97706),
     (''burnt_orange'', 0xCC5500),
     (''black'', 0x111111),
     (''gray'', 0x4B5563),
     (''red'', 0xEF4444),
     (''green'', 0x10B981),
     (''blue'', 0x3B82F6),
     (''purple'', 0x8B5CF6),
     (''gold'', 0xF59E0B)]"

definition orange :: int where
  "orange = the (map_of COLOR_MAP ''orange'')"

text \<open>The part of \<open>parse_color\<close> after the test \<open>if not value\<close>.\<close>

definition parse_color_text :: "string \<Rightarrow> int" where
  "parse_color_text s = (let v = lower (strip s) in
     case map_of COLOR_MAP v of
       Some c \<Rightarrow> c
     | None \<Rightarrow> (case int16 (lstrip_char (CHR ''#'') v) of
                  Some n \<Rightarrow> n AND 0xFFFFFF
                | None \<Rightarrow> orange))"

function parse_color :: "config \<Rightarrow> string option \<Rightarrow> int" where
  "parse_color cfg v =
     (case truthy v of
        None \<Rightarrow> (case truthy (brand_color cfg) of
                   Some bc \<Rightarrow> parse_color cfg (Some bc)
                 | None \<Rightarrow> orange)
      | Some s \<Rightarrow> parse_color_text s)"
  by pat_completeness auto
termination
  by (relation "measure (\<lambda>(cfg, v). if truthy v = None then 1 else 0)")
     (auto simp: truthy_def split: option.splits if_splits)

declare parse_color.simps [simp del]

text \<open>
  What a string of hex digits denotes, read independently of \<open>int16\<close>: the number
  whose base-16 digits are the characters of the string, most significant first.
\<close>

definition is_hex :: "char \<Rightarrow> bool" where
  "is_hex c = (hex_value c \<noteq> None)"

definition hex_number :: "string \<Rightarrow> int" where
  "hex_number hs = foldl (\<lambda>a c. 16 * a + int (the (hex_value c))) 0 hs"

text \<open>A configuration with the brand colour of the default \<open>CONFIG\<close>.\<close>

definition default_config :: config where
  "default_config = \<lparr> brand_color = Some ''#d97706'', category_id = IdUnset,
     support_role_id = IdUnset, transcripts_channel_id = IdUnset,
     ticket_prefix = Some ''ticket'' \<rparr>"


section \<open>Discord objects\<close>

text \<open>
  The objects of the chat platform that the ticket code reads. A role, a member and a
  channel are identified by their ids, as the library compares them. \<open>str(user)\<close> is a
  field of its own, since it is the library that renders it.
\<close>

datatype channel_kind = TextChannel | CategoryChannel | OtherChannel

record user =
  user_id :: int
  user_name :: string
  user_str :: string

text \<open>
  A guild: its name, the id of its default (everyone) role, the id of the member that
  is the bot itself (\<open>guild.me\<close>), the ids of the roles that \<open>get_role\<close> finds and the
  channels that \<open>get_channel\<close> finds. The default role is a role of the guild like
  any other, so it may be among the roles that \<open>get_role\<close> finds.
\<close>

record guild =
  guild_name :: string
  default_role :: int
  me :: int
  roles :: "int list"
  channels :: "(int \<times> channel_kind) list"

definition get_role :: "guild \<Rightarrow> int \<Rightarrow> int option" where
  "get_role g rid = (if rid \<in> set (roles g) then Some rid else None)"

definition get_channel :: "guild \<Rightarrow> int \<Rightarrow> (int \<times> channel_kind) option" where
  "get_channel g cid = (case map_of (channels g) cid of
       None \<Rightarrow> None | Some k \<Rightarrow> Some (cid, k))"

text \<open>
  A time stamp in UTC. \<open>strftime\<close> is the format \<open>%Y-%m-%d %H:%M:%S UTC\<close> and
  \<open>str_datetime\<close> is \<open>str\<close> of an aware UTC time stamp, for years of four digits.
\<close>

record datetime =
  year :: nat
  month :: nat
  day :: nat
  hour :: nat
  minute :: nat
  second :: nat
  microsecond :: nat

definition date_part :: "datetime \<Rightarrow> string" where
  "date_part d = zfill 4 (str_nat (year d)) @ ''-'' @ zfill 2 (str_nat (month d)) @ ''-''
     @ zfill 2 (str_nat (day d))"

definition time_part :: "datetime \<Rightarrow> string" where
  "time_part d = zfill 2 (str_nat (hour d)) @ '':'' @ zfill 2 (str_nat (minute d)) @ '':''
     @ zfill 2 (str_nat (second d))"

definition strftime :: "datetime \<Rightarrow> string" where
  "strftime d = date_part d @ '' '' @ time_part d @ '' UTC''"

definition str_datetime :: "datetime \<Rightarrow> string" where
  "str_datetime d = date_part d @ '' '' @ time_part d
     @ (if microsecond d = 0 then [] else ''.'' @ zfill 6 (str_nat (microsecond d)))
     @ ''+00:00''"

text \<open>The order of time stamps, field by field.\<close>

definition dt_key :: "datetime \<Rightarrow> nat list" where
  "dt_key d = [year d, month d, day d, hour d, minute d, second d, microsecond d]"

fun lex_le :: "nat list \<Rightarrow> nat list \<Rightarrow> bool" where
  "lex_le [] ys = True"
| "lex_le (x # xs) [] = False"
| "lex_le (x # xs) (y # ys) = (x < y \<or> (x = y \<and> lex_le xs ys))"

definition dt_le :: "datetime \<Rightarrow> datetime \<Rightarrow> bool" where
  "dt_le a b = lex_le (dt_key a) (dt_key b)"

record channel =
  ch_kind :: channel_kind
  ch_id :: int
  ch_name :: string
  ch_created_at :: datetime
  ch_guild :: guild

record embed =
  embed_title :: "string option"
  embed_description :: "string option"

record attachment =
  att_url :: string

record message =
  msg_author :: user
  msg_created_at :: datetime
  msg_content :: string
  msg_embeds :: "embed list"
  msg_attachments :: "attachment list"

record interaction =
  ix_id :: int
  ix_user :: user
  ix_channel :: channel
  ix_guild :: "guild option"

text \<open>The mentions, as the library renders them from the id.\<close>

definition member_mention :: "int \<Rightarrow> string" where
  "member_mention i = ''<@'' @ str_int i @ ''>''"

definition role_mention :: "int \<Rightarrow> string" where
  "role_mention i = ''<@&'' @ str_int i @ ''>''"

section \<open>Permission overwrites\<close>

text \<open>
  A \<open>PermissionOverwrite\<close>: each permission is allowed (\<open>Some True\<close>), denied
  (\<open>Some False\<close>) or left to the defaults (\<open>None\<close>). The overwrites of a channel are a
  Python dict from roles and members to overwrites: assigning to a key that is present
  replaces its value, assigning to a new key adds it at the end.
\<close>

record overwrite =
  view_channel :: "bool option"
  send_messages :: "bool option"
  read_message_history :: "bool option"
  attach_files :: "bool option"
  embed_links :: "bool option"
  manage_channels :: "bool option"
  manage_messages :: "bool option"

definition PermissionOverwrite :: overwrite where
  "PermissionOverwrite = \<lparr> view_channel = None, send_messages = None,
     read_message_history = None, attach_files = None, embed_links = None,
     manage_channels = None, manage_messages = None \<rparr>"

datatype principal = RoleP int | MemberP int

fun dict_set :: "'k \<Rightarrow> 'v \<Rightarrow> ('k \<times> 'v) list \<Rightarrow> ('k \<times> 'v) list" where
  "dict_set k v [] = [(k, v)]"
| "dict_set k v ((k', v') # kvs) =
     (if k' = k then (k', v) # kvs else (k', v') # dict_set k v kvs)"

definition dict_get :: "('k \<times> 'v) list \<Rightarrow> 'k \<Rightarrow> 'v option" where
  "dict_get d k = map_of d k"

section \<open>Effects\<close>

text \<open>
  A handler is a coroutine that awaits calls of the platform and of the file system.
  Its run is the list of the calls it attempted, in order, and its outcome: \<open>None\<close>
  when it returned, \<open>Some e\<close> when the exception \<open>e\<close> left it. Whether a call succeeds
  is not for the handler to decide: the environment says, for each call site, whether
  the call raises. All the exceptions modelled are subclasses of \<open>Exception\<close>.
\<close>

datatype exn = ValueError | HTTPException | Forbidden | NotFound | InteractionResponded | OSError

text \<open>
  The replies \<open>interaction.response.send_message\<close> sends to the invoking user, named
  by their text: "Tickets must be used in a server.", "Ticket created: (channel)",
  "Use this inside a ticket channel.", "Ticket claimed by (user).",
  "Added (user) to this ticket.", "Removed (user) from this ticket." and
  "Closing ticket and generating transcript...".
\<close>

datatype notice =
    TicketsMustBeUsedInServer
  | TicketCreated int
  | UseInsideTicketChannel
  | TicketClaimedBy int
  | AddedToTicket int
  | RemovedFromTicket int
  | ClosingTicket

text \<open>
  An embed made by \<open>make_announcement_embed\<close>: its title (one of the two the ticket
  code uses, "New Ticket" and "Ticket Closed"), its text and its colour. The time stamp,
  author and footer of the embed are left out.
\<close>

datatype embed_title = NewTicket | TicketClosed

record announcement =
  ann_title :: embed_title
  ann_text :: string
  ann_color :: int

definition make_announcement_embed ::
    "config \<Rightarrow> string \<Rightarrow> embed_title \<Rightarrow> string option \<Rightarrow> announcement" where
  "make_announcement_embed cfg text title color =
     \<lparr> ann_title = title, ann_text = text,
       ann_color = parse_color cfg
         (case truthy color of Some c \<Rightarrow> Some c | None \<Rightarrow> brand_color cfg) \<rparr>"

text \<open>What \<open>channel.send\<close> posts: an embed, with a file or without, or a text.\<close>

datatype post = EmbedPost announcement "string option" | TextPost string

datatype event =
    Respond notice bool
  | CreateTextChannel string "int option" "(principal \<times> overwrite) list" string
  | Send int post
  | SetPermissions int int "overwrite option"
  | Makedirs string
  | History int
  | WriteFile string "string list"
  | Delete int string
  | LogException string exn

type_synonym run = "event list \<times> exn option"

record env =
  respond_fault :: "exn option"
  create_result :: "exn + int"
  intro_fault :: "exn option"
  mention_fault :: "exn option"
  set_permissions_fault :: "exn option"
  makedirs_fault :: "exn option"
  history_result :: "exn + message list"
  write_fault :: "exn option"
  archive_send_fault :: "exn option"
  ticket_send_fault :: "exn option"
  delete_fault :: "exn option"

text \<open>An awaited call; statements in sequence; \<open>raise\<close>; the three forms of
  \<open>try\<close> the handlers use.\<close>

definition attempt :: "event \<Rightarrow> exn option \<Rightarrow> run" where
  "attempt ev fault = ([ev], fault)"

definition and_then :: "run \<Rightarrow> run \<Rightarrow> run" where
  "and_then r1 r2 = (case snd r1 of None \<Rightarrow> (fst r1 @ fst r2, snd r2) | Some e \<Rightarrow> r1)"

definition raise :: "exn \<Rightarrow> run" where
  "raise e = ([], Some e)"

definition skip :: run where
  "skip = ([], None)"

definition try_except_log :: "string \<Rightarrow> run \<Rightarrow> run" where
  "try_except_log msg r = (case snd r of
       None \<Rightarrow> r | Some e \<Rightarrow> (fst r @ [LogException msg e], None))"

definition try_except_pass :: "run \<Rightarrow> run" where
  "try_except_pass r = (fst r, None)"

definition try_except_only :: "exn \<Rightarrow> run \<Rightarrow> run" where
  "try_except_only x r = (case snd r of
       None \<Rightarrow> r | Some e \<Rightarrow> if e = x then (fst r, None) else r)"

text \<open>\<open>lookup(int(x)) if x else None\<close> for an id entry of the configuration.\<close>

definition resolve_id :: "cfg_id \<Rightarrow> (int \<Rightarrow> 'a option) \<Rightarrow> exn + 'a option" where
  "resolve_id x lookup = (case x of
       IdUnset \<Rightarrow> Inr None
     | IdMalformed \<Rightarrow> Inl ValueError
     | IdValue n \<Rightarrow> Inr (lookup n))"

section \<open>Opening a ticket\<close>

definition naming_prefix :: "config \<Rightarrow> string" where
  "naming_prefix cfg =
     lower (case truthy (ticket_prefix cfg) of None \<Rightarrow> ''ticket'' | Some p \<Rightarrow> p)"

definition channel_name :: "config \<Rightarrow> user \<Rightarrow> interaction \<Rightarrow> string" where
  "channel_name cfg opener ix =
     naming_prefix cfg @ ''-'' @ lower (take 20 (user_name opener)) @ ''-''
       @ format_04d (ix_id ix mod 10000)"

definition opener_overwrite :: overwrite where
  "opener_overwrite = PermissionOverwrite \<lparr> view_channel := Some True,
     send_messages := Some True, read_message_history := Some True,
     attach_files := Some True, embed_links := Some True \<rparr>"

definition me_overwrite :: overwrite where
  "me_overwrite = PermissionOverwrite \<lparr> view_channel := Some True,
     send_messages := Some True, read_message_history := Some True,
     manage_channels := Some True, attach_files := Some True, embed_links := Some True \<rparr>"

definition support_overwrite :: overwrite where
  "support_overwrite = PermissionOverwrite \<lparr> view_channel := Some True,
     send_messages := Some True, read_message_history := Some True,
     attach_files := Some True, embed_links := Some True, manage_messages := Some True \<rparr>"

definition ticket_overwrites ::
    "guild \<Rightarrow> user \<Rightarrow> int option \<Rightarrow> (principal \<times> overwrite) list" where
  "ticket_overwrites g opener support_role =
     (let overwrites =
        dict_set (MemberP (me g)) me_overwrite
          (dict_set (MemberP (user_id opener)) opener_overwrite
            (dict_set (RoleP (default_role g))
               (PermissionOverwrite \<lparr> view_channel := Some False \<rparr>) []))
      in case support_role of
           None \<Rightarrow> overwrites
         | Some r \<Rightarrow> dict_set (RoleP r) support_overwrite overwrites)"

definition category_of :: "(int \<times> channel_kind) option \<Rightarrow> int option" where
  "category_of c = (case c of
       None \<Rightarrow> None
     | Some (cid, k) \<Rightarrow> if k = CategoryChannel then Some cid else None)"

definition open_reason :: "user \<Rightarrow> string" where
  "open_reason opener =
     ''Ticket opened by '' @ user_str opener @ '' ('' @ str_int (user_id opener) @ '')''"

definition intro_text :: "user \<Rightarrow> string \<Rightarrow> string" where
  "intro_text opener reason =
     ''**Ticket opened by '' @ member_mention (user_id opener)
       @ ''**\<newline>\<newline>**Reason:**\<newline>'' @ reason"

definition mention_text :: "user \<Rightarrow> int option \<Rightarrow> string" where
  "mention_text opener support_role =
     member_mention (user_id opener)
       @ (case support_role of None \<Rightarrow> [] | Some r \<Rightarrow> '' '' @ role_mention r)"

definition create_ticket_channel ::
    "config \<Rightarrow> env \<Rightarrow> interaction \<Rightarrow> user \<Rightarrow> string \<Rightarrow> run" where
  "create_ticket_channel cfg env ix opener reason =
     (case ix_guild ix of
        None \<Rightarrow> attempt (Respond TicketsMustBeUsedInServer True) (respond_fault env)
      | Some g \<Rightarrow>
         (case resolve_id (category_id cfg) (get_channel g) of
            Inl e \<Rightarrow> raise e
          | Inr found \<Rightarrow>
             (case resolve_id (support_role_id cfg) (get_role g) of
                Inl e \<Rightarrow> raise e
              | Inr support_role \<Rightarrow>
                 (let create = CreateTextChannel (channel_name cfg opener ix)
                        (category_of found) (ticket_overwrites g opener support_role)
                        (open_reason opener)
                  in case create_result env of
                       Inl e \<Rightarrow> attempt create (Some e)
                     | Inr new_id \<Rightarrow>
                        and_then (attempt create None)
                       (and_then (attempt (Send new_id (EmbedPost
                            (make_announcement_embed cfg (intro_text opener reason)
                               NewTicket (Some ''orange'')) None)) (intro_fault env))
                       (and_then (attempt (Send new_id
                            (TextPost (mention_text opener support_role))) (mention_fault env))
                         (try_except_only InteractionResponded
                            (attempt (Respond (TicketCreated new_id) True)
                               (respond_fault env)))))))))"

section \<open>The transcript\<close>

definition author_text :: "message \<Rightarrow> string" where
  "author_text msg = user_str (msg_author msg) @ '' ('' @ str_int (user_id (msg_author msg))
     @ '')''"

definition or_empty :: "string option \<Rightarrow> string" where
  "or_empty x = (case x of None \<Rightarrow> [] | Some s \<Rightarrow> s)"

definition embed_line :: "string \<Rightarrow> string \<Rightarrow> nat \<Rightarrow> embed \<Rightarrow> string" where
  "embed_line ts author idx e =
     ''['' @ ts @ ''] '' @ author @ '' (EMBED '' @ str_nat idx @ '') Title: ''
       @ or_empty (embed_title e) @ ''\<newline>'' @ or_empty (embed_description e) @ ''\<newline>''"

fun embed_lines :: "string \<Rightarrow> string \<Rightarrow> nat \<Rightarrow> embed list \<Rightarrow> string list" where
  "embed_lines ts author idx [] = []"
| "embed_lines ts author idx (e # es) =
     embed_line ts author idx e # embed_lines ts author (Suc idx) es"

definition content_line :: "string \<Rightarrow> string \<Rightarrow> string \<Rightarrow> string" where
  "content_line ts author content = ''['' @ ts @ ''] '' @ author @ '': '' @ content @ ''\<newline>''"

definition attachment_line :: "string \<Rightarrow> string \<Rightarrow> attachment \<Rightarrow> string" where
  "attachment_line ts author a =
     ''['' @ ts @ ''] '' @ author @ '' attached: '' @ att_url a @ ''\<newline>''"

text \<open>The body of the loop over the history: what one message appends to \<open>lines\<close>.\<close>

definition message_lines :: "message \<Rightarrow> string list" where
  "message_lines msg =
     (let author = author_text msg;
          ts = strftime (msg_created_at msg);
          content = msg_content msg
      in embed_lines ts author 1 (msg_embeds msg)
         @ (if content \<noteq> [] then [content_line ts author content] else [])
         @ map (attachment_line ts author) (msg_attachments msg))"

definition header_lines :: "channel \<Rightarrow> string list" where
  "header_lines ch =
     [''Transcript for #'' @ ch_name ch @ '' ('' @ str_int (ch_id ch) @ '') in ''
        @ guild_name (ch_guild ch) @ ''\<newline>'',
      ''Channel created at: '' @ str_datetime (ch_created_at ch) @ '' UTC\<newline>'',
      replicate 60 (CHR ''='') @ ''\<newline>'']"

definition transcript_lines :: "channel \<Rightarrow> message list \<Rightarrow> string list" where
  "transcript_lines ch msgs =
     foldl (\<lambda>lines msg. lines @ message_lines msg) (header_lines ch) msgs"

definition transcript_path :: "channel \<Rightarrow> string" where
  "transcript_path ch =
     ''transcripts/'' @ ch_name ch @ ''-'' @ str_int (ch_id ch) @ ''.txt''"

text \<open>\<open>f.writelines(lines)\<close>: the text of the file.\<close>

definition writelines :: "string list \<Rightarrow> string" where
  "writelines ls = concat ls"

definition generate_text_transcript :: "env \<Rightarrow> channel \<Rightarrow> run" where
  "generate_text_transcript env ch =
     and_then (attempt (Makedirs ''transcripts'') (makedirs_fault env))
       (case history_result env of
          Inl e \<Rightarrow> attempt (History (ch_id ch)) (Some e)
        | Inr msgs \<Rightarrow>
            and_then (attempt (History (ch_id ch)) None)
              (attempt (WriteFile (transcript_path ch) (transcript_lines ch msgs))
                 (write_fault env)))"

section \<open>The ticket commands\<close>

definition guard_prefix :: "config \<Rightarrow> string" where
  "guard_prefix cfg = (case ticket_prefix cfg of None \<Rightarrow> ''ticket'' | Some p \<Rightarrow> p)"

definition is_ticket_channel :: "config \<Rightarrow> channel \<Rightarrow> bool" where
  "is_ticket_channel cfg ch =
     (ch_kind ch = TextChannel \<and> startswith (ch_name ch) (guard_prefix cfg))"

definition ticket_claim :: "config \<Rightarrow> env \<Rightarrow> interaction \<Rightarrow> run" where
  "ticket_claim cfg env ix =
     (let ch = ix_channel ix in
      if \<not> is_ticket_channel cfg ch
      then attempt (Respond UseInsideTicketChannel True) (respond_fault env)
      else attempt (Respond (TicketClaimedBy (user_id (ix_user ix))) False)
             (respond_fault env))"

definition ticket_add :: "config \<Rightarrow> env \<Rightarrow> interaction \<Rightarrow> user \<Rightarrow> run" where
  "ticket_add cfg env ix u =
     (let ch = ix_channel ix in
      if \<not> is_ticket_channel cfg ch
      then attempt (Respond UseInsideTicketChannel True) (respond_fault env)
      else and_then
             (attempt (SetPermissions (ch_id ch) (user_id u) (Some opener_overwrite))
                (set_permissions_fault env))
             (attempt (Respond (AddedToTicket (user_id u)) False) (respond_fault env)))"

definition ticket_remove :: "config \<Rightarrow> env \<Rightarrow> interaction \<Rightarrow> user \<Rightarrow> run" where
  "ticket_remove cfg env ix u =
     (let ch = ix_channel ix in
      if \<not> is_ticket_channel cfg ch
      then attempt (Respond UseInsideTicketChannel True) (respond_fault env)
      else and_then
             (attempt (SetPermissions (ch_id ch) (user_id u) None)
                (set_permissions_fault env))
             (attempt (Respond (RemovedFromTicket (user_id u)) False) (respond_fault env)))"

definition close_text :: "channel \<Rightarrow> user \<Rightarrow> string option \<Rightarrow> string" where
  "close_text ch actor reason =
     ''Ticket **#'' @ ch_name ch @ ''** closed by '' @ member_mention (user_id actor)
       @ ''.\<newline>''
       @ (case truthy reason of None \<Rightarrow> [] | Some r \<Rightarrow> ''**Reason:** '' @ r)"

definition delete_reason :: "string option \<Rightarrow> string" where
  "delete_reason reason = (case truthy reason of None \<Rightarrow> ''Ticket closed'' | Some r \<Rightarrow> r)"

definition text_channel_of :: "(int \<times> channel_kind) option \<Rightarrow> int option" where
  "text_channel_of c = (case c of
       None \<Rightarrow> None
     | Some (cid, k) \<Rightarrow> if k = TextChannel then Some cid else None)"

definition ticket_close :: "config \<Rightarrow> env \<Rightarrow> interaction \<Rightarrow> string option \<Rightarrow> run" where
  "ticket_close cfg env ix reason =
     (let ch = ix_channel ix in
      if \<not> is_ticket_channel cfg ch
      then attempt (Respond UseInsideTicketChannel True) (respond_fault env)
      else and_then (attempt (Respond ClosingTicket True) (respond_fault env))
          (and_then (generate_text_transcript env ch)
          (case resolve_id (transcripts_channel_id cfg) (get_channel (ch_guild ch)) of
             Inl e \<Rightarrow> raise e
           | Inr found \<Rightarrow>
              (let close_embed = EmbedPost
                     (make_announcement_embed cfg (close_text ch (ix_user ix) reason)
                        TicketClosed (Some ''green''))
                     (Some (transcript_path ch))
               in and_then
                    (case text_channel_of found of
                       None \<Rightarrow> skip
                     | Some transcripts_ch \<Rightarrow>
                         try_except_log ''Failed to post transcript''
                           (attempt (Send transcripts_ch close_embed)
                              (archive_send_fault env)))
                 (and_then
                    (try_except_pass
                       (attempt (Send (ch_id ch) close_embed) (ticket_send_fault env)))
                    (try_except_log ''Failed to delete channel''
                       (attempt (Delete (ch_id ch) (delete_reason reason))
                          (delete_fault env))))))))"

section \<open>Reading a run\<close>

text \<open>The replies sent to the invoking user in a run, in order.\<close>

fun notices :: "event list \<Rightarrow> notice list" where
  "notices [] = []"
| "notices (Respond n eph # es) = n # notices es"
| "notices (e # es) = notices es"

fun is_write :: "event \<Rightarrow> bool" where
  "is_write (WriteFile p ls) = True"
| "is_write e = False"

fun is_send :: "event \<Rightarrow> bool" where
  "is_send (Send c p) = True"
| "is_send e = False"

fun is_delete :: "event \<Rightarrow> bool" where
  "is_delete (Delete c r) = True"
| "is_delete e = False"

fun is_log :: "event \<Rightarrow> bool" where
  "is_log (LogException m e) = True"
| "is_log e = False"

fun is_create :: "event \<Rightarrow> bool" where
  "is_create (CreateTextChannel n c ov r) = True"
| "is_create e = False"

fun is_set_permissions :: "event \<Rightarrow> bool" where
  "is_set_permissions (SetPermissions c u ov) = True"
| "is_set_permissions e = False"

text \<open>The calls of a run that reach the platform or the disk: all but the log entries.\<close>

definition calls :: "event list \<Rightarrow> event list" where
  "calls tr = filter (\<lambda>e. \<not> is_log e) tr"

text \<open>The number of lines of a text: the number of its newline characters.\<close>

definition count_lines :: "string \<Rightarrow> nat" where
  "count_lines s = length (filter (\<lambda>c. c = CHR ''\<newline>'') s)"

section \<open>Sample objects\<close>

definition alice :: user where
  "alice = \<lparr> user_id = 1001, user_name = ''Alice_With_A_Very_Long_Handle'',
     user_str = ''Alice_With_A_Very_Long_Handle'' \<rparr>"

definition staff1 :: user where
  "staff1 = \<lparr> user_id = 1002, user_name = ''staff1'', user_str = ''staff1'' \<rparr>"

definition sample_guild :: guild where
  "sample_guild = \<lparr> guild_name = ''Rusty Tiger'', default_role = 1, me = 999,
     roles = [1, 7], channels = [(50, CategoryChannel), (60, TextChannel)] \<rparr>"

definition sample_time :: datetime where
  "sample_time = \<lparr> year = 2024, month = 5, day = 17, hour = 9, minute = 30, second = 0,
     microsecond = 0 \<rparr>"

definition ticket_channel :: channel where
  "ticket_channel = \<lparr> ch_kind = TextChannel, ch_id = 4242, ch_name = ''ticket-alice-0042'',
     ch_created_at = sample_time, ch_guild = sample_guild \<rparr>"

definition general_channel :: channel where
  "general_channel = \<lparr> ch_kind = TextChannel, ch_id = 60, ch_name = ''general'',
     ch_created_at = sample_time, ch_guild = sample_guild \<rparr>"

definition sample_config :: config where
  "sample_config = \<lparr> brand_color = Some ''#d97706'', category_id = IdValue 50,
     support_role_id = IdValue 7, transcripts_channel_id = IdValue 60,
     ticket_prefix = Some ''ticket'' \<rparr>"

definition embed_message :: message where
  "embed_message = \<lparr> msg_author = staff1, msg_created_at = sample_time, msg_content = [],
     msg_embeds = [\<lparr> embed_title = None, embed_description = None \<rparr>],
     msg_attachments = [] \<rparr>"

definition full_message :: message where
  "full_message = \<lparr> msg_author = alice,
     msg_created_at = sample_time \<lparr> minute := 31 \<rparr>, msg_content = ''billing issue'',
     msg_embeds = [\<lparr> embed_title = Some ''Invoice'', embed_description = Some ''May'' \<rparr>],
     msg_attachments = [\<lparr> att_url = ''https://cdn.example/a.png'' \<rparr>,
                        \<lparr> att_url = ''https://cdn.example/b.png'' \<rparr>] \<rparr>"

definition ok_env :: env where
  "ok_env = \<lparr> respond_fault = None, create_result = Inr 4242, intro_fault = None,
     mention_fault = None, set_permissions_fault = None, makedirs_fault = None,
     history_result = Inr [embed_message, full_message], write_fault = None,
     archive_send_fault = None, ticket_send_fault = None, delete_fault = None \<rparr>"

definition open_interaction :: interaction where
  "open_interaction = \<lparr> ix_id = 1234567890123456789, ix_user = alice,
     ix_channel = general_channel, ix_guild = Some sample_guild \<rparr>"

definition close_interaction :: interaction where
  "close_interaction = \<lparr> ix_id = 1234567890123459999, ix_user = staff1,
     ix_channel = ticket_channel, ix_guild = Some sample_guild \<rparr>"

definition stray_interaction :: interaction where
  "stray_interaction = \<lparr> ix_id = 1234567890123450001, ix_user = staff1,
     ix_channel = general_channel, ix_guild = Some sample_guild \<rparr>"

(*PROPERTIES*)

section \<open>Properties of the colour parser\<close>

lemma and_mask24: "(x::int) AND 0xFFFFFF = x mod 2 ^ 24"
proof -
  have "(0xFFFFFF::int) = mask 24" by (simp add: mask_eq_exp_minus_1)
  then have "x AND 0xFFFFFF = take_bit 24 x" by (simp only: take_bit_eq_mask)
  then show ?thesis by (simp add: take_bit_eq_mod)
qed

lemma color_map_range: "map_of COLOR_MAP v = Some c \<Longrightarrow> 0 \<le> c \<and> c \<le> 0xFFFFFF"
  by (auto simp: COLOR_MAP_def split: if_splits)

lemma orange_val: "orange = 0xD97706"
  by (simp add: orange_def COLOR_MAP_def)

lemma parse_color_text_range: "0 \<le> parse_color_text s \<and> parse_color_text s \<le> 0xFFFFFF"
proof (cases "map_of COLOR_MAP (lower (strip s))")
  case None
  then show ?thesis
    by (cases "int16 (lstrip_char (CHR ''#'') (lower (strip s)))")
       (simp_all add: parse_color_text_def Let_def and_mask24 orange_val)
next
  case (Some c)
  then show ?thesis using color_map_range[OF Some]
    by (simp add: parse_color_text_def Let_def)
qed

lemma parse_color_range: "0 \<le> parse_color cfg v \<and> parse_color cfg v \<le> 0xFFFFFF"
proof (induction cfg v rule: parse_color.induct)
  case (1 cfg v)
  show ?case
  proof (cases "truthy v")
    case None
    then show ?thesis using 1
      by (cases "truthy (brand_color cfg)") (simp_all add: parse_color.simps[of cfg v] orange_val)
  next
    case (Some s)
    then show ?thesis using parse_color_text_range[of s]
      by (simp add: parse_color.simps[of cfg v])
  qed
qed

lemma is_hex_ord:
  "is_hex c \<longleftrightarrow> (48 \<le> ord c \<and> ord c \<le> 57) \<or> (97 \<le> ord c \<and> ord c \<le> 102)
     \<or> (65 \<le> ord c \<and> ord c \<le> 70)"
  by (simp add: is_hex_def hex_value_def Let_def)

lemma is_hex_not_special:
  assumes "is_hex c"
  shows "\<not> isspace c" "\<not> int_space c" "c \<noteq> CHR ''#''" "c \<noteq> CHR ''_''"
    "c \<noteq> CHR ''+''" "c \<noteq> CHR ''-''" "c \<noteq> CHR ''x''" "c \<noteq> CHR ''X''"
  using assms by (auto simp: is_hex_ord isspace_def int_space_def Let_def ord_def)

lemma ord_lower_char:
  "65 \<le> ord c \<Longrightarrow> ord c \<le> 70 \<Longrightarrow> ord (lower_char c) = ord c + 32"
  by (simp add: lower_char_def Let_def ord_def)

lemma hex_value_lower_char: "is_hex c \<Longrightarrow> hex_value (lower_char c) = hex_value c"
proof -
  assume h: "is_hex c"
  show ?thesis
  proof (cases "65 \<le> ord c \<and> ord c \<le> 70")
    case True
    then have "ord (lower_char c) = ord c + 32" by (simp add: ord_lower_char)
    with True show ?thesis by (simp add: hex_value_def Let_def)
  next
    case False
    with h have "lower_char c = c" by (auto simp: lower_char_def Let_def is_hex_ord)
    then show ?thesis by simp
  qed
qed

lemma is_hex_lower_char: "is_hex c \<Longrightarrow> is_hex (lower_char c)"
  by (simp add: is_hex_def hex_value_lower_char)

lemma scan16_hex:
  "list_all is_hex w \<Longrightarrow>
   scan16 False acc w = Some (foldl (\<lambda>a c. 16 * a + int (the (hex_value c))) acc w, [])"
proof (induction w arbitrary: acc)
  case Nil
  then show ?case by simp
next
  case (Cons c w)
  then have "is_hex c" by simp
  then obtain d where d: "hex_value c = Some d" by (auto simp: is_hex_def)
  from \<open>is_hex c\<close> have "c \<noteq> CHR ''_''" by (rule is_hex_not_special)
  with Cons d show ?case by simp
qed

lemma int16_hex:
  assumes "w \<noteq> []" "list_all is_hex w"
  shows "int16 w = Some (hex_number w)"
proof -
  from assms obtain c r where w: "w = c # r" by (cases w) auto
  with assms have c: "is_hex c" by simp
  have dw: "dropWhile int_space w = w" using w is_hex_not_special(2)[OF c] by simp
  have ss: "skip_sign w = (False, w)"
    using w is_hex_not_special(5,6)[OF c] by (simp add: skip_sign_def)
  have s0: "skip_0x w = w"
  proof (cases r)
    case Nil
    then show ?thesis using w by (simp add: skip_0x_def)
  next
    case (Cons b r')
    with assms w have "is_hex b" by simp
    then have "b \<noteq> CHR ''x''" "b \<noteq> CHR ''X''" by (rule is_hex_not_special)+
    then show ?thesis using w Cons by (simp add: skip_0x_def)
  qed
  from c have hv: "hex_value c \<noteq> None" by (simp add: is_hex_def)
  show ?thesis
    using hv scan16_hex[OF assms(2), of 0]
    by (simp add: int16_def dw ss s0 hex_number_def w[symmetric]) (simp add: w hv)
qed

lemma strip_id:
  "s \<noteq> [] \<Longrightarrow> \<not> isspace (hd s) \<Longrightarrow> \<not> isspace (last s) \<Longrightarrow> strip s = s"
proof -
  assume a: "s \<noteq> []" "\<not> isspace (hd s)" "\<not> isspace (last s)"
  then have 1: "dropWhile isspace s = s" by (cases s) auto
  from a have "rev s \<noteq> []" "\<not> isspace (hd (rev s))" by (simp_all add: hd_rev)
  then have 2: "dropWhile isspace (rev s) = rev s" by (cases "rev s") auto
  show ?thesis by (simp add: strip_def 1 2)
qed

lemma lstrip_hashes:
  "w \<noteq> [] \<Longrightarrow> hd w \<noteq> CHR ''#'' \<Longrightarrow>
   lstrip_char (CHR ''#'') (replicate k (CHR ''#'') @ w) = w"
proof (induction k)
  case 0
  then show ?case by (cases w) (simp_all add: lstrip_char_def)
next
  case (Suc k)
  then show ?case by (simp add: lstrip_char_def)
qed

lemma hex_number_lower: "list_all is_hex hs \<Longrightarrow> hex_number (lower hs) = hex_number hs"
proof -
  assume h: "list_all is_hex hs"
  have "foldl (\<lambda>a c. 16 * a + int (the (hex_value c))) acc (map lower_char hs)
      = foldl (\<lambda>a c. 16 * a + int (the (hex_value c))) acc hs" for acc
    using h by (induction hs arbitrary: acc) (simp_all add: hex_value_lower_char)
  then show ?thesis by (simp add: hex_number_def lower_def)
qed

lemma color_keys_checked:
  "list_all (\<lambda>k. list_ex (\<lambda>ch. \<not> is_hex ch \<and> ch \<noteq> CHR ''#'') k) (map fst COLOR_MAP)"
  by code_simp

lemma color_key_letter:
  assumes "map_of COLOR_MAP v = Some c"
  shows "\<exists>ch \<in> set v. \<not> is_hex ch \<and> ch \<noteq> CHR ''#''"
proof -
  from assms have "v \<in> set (map fst COLOR_MAP)"
    by (metis map_of_SomeD set_zip_leftD zip_map_fst_snd)
  with color_keys_checked show ?thesis
    by (auto simp: list_all_iff list_ex_iff)
qed

lemma lower_hash: "lower_char (CHR ''#'') = CHR ''#''"
  by (simp add: lower_char_def Let_def ord_def)

lemma hash_not_space: "\<not> isspace (CHR ''#'')"
  by (simp add: isspace_def Let_def ord_def)

lemma parse_color_text_hex:
  assumes "hs \<noteq> []" "list_all is_hex hs"
  shows "parse_color_text (replicate k (CHR ''#'') @ hs) = hex_number hs mod 2 ^ 24"
proof -
  define s where "s = replicate k (CHR ''#'') @ hs"
  have ok: "is_hex ch \<or> ch = CHR ''#''" if "ch \<in> set s" for ch
    using assms(2) that by (auto simp: list_all_iff s_def)
  have nsp: "\<not> isspace ch" if "ch \<in> set s" for ch
    using ok[OF that] is_hex_not_special(1)[of ch] hash_not_space by auto
  have ne: "s \<noteq> []" using assms(1) by (simp add: s_def)
  then have "hd s \<in> set s" "last s \<in> set s" by simp_all
  then have st: "strip s = s"
    using strip_id[OF ne] nsp by blast
  have lw: "lower s = replicate k (CHR ''#'') @ lower hs"
    by (simp add: lower_def lower_hash s_def)
  have lh: "list_all is_hex (lower hs)"
    using assms(2) by (simp add: list_all_iff lower_def is_hex_lower_char)
  have lne: "lower hs \<noteq> []" using assms(1) by (simp add: lower_def)
  have nokey: "map_of COLOR_MAP (lower s) = None"
  proof (cases "map_of COLOR_MAP (lower s)")
    case (Some c)
    from color_key_letter[OF Some] obtain ch where
      "ch \<in> set (lower s)" "\<not> is_hex ch" "ch \<noteq> CHR ''#''" by blast
    with lh have False by (auto simp: lw list_all_iff)
    then show ?thesis ..
  qed simp
  have "is_hex (hd (lower hs))" using lne lh by (cases "lower hs") auto
  then have hdl: "hd (lower hs) \<noteq> CHR ''#''" by (rule is_hex_not_special)
  have ls: "lstrip_char (CHR ''#'') (lower s) = lower hs"
    unfolding lw by (rule lstrip_hashes[OF lne hdl])
  have "parse_color_text s = hex_number hs mod 2 ^ 24"
    by (simp add: parse_color_text_def Let_def st nokey ls int16_hex[OF lne lh]
        hex_number_lower[OF assms(2)] and_mask24)
  then show ?thesis by (simp only: s_def)
qed

lemma parse_color_nonempty: "s \<noteq> [] \<Longrightarrow> parse_color cfg (Some s) = parse_color_text s"
  by (simp add: parse_color.simps[of cfg "Some s"] truthy_def)

lemma parse_color_empty:
  "truthy v = None \<Longrightarrow>
   parse_color cfg v = (case truthy (brand_color cfg) of
                          Some bc \<Rightarrow> parse_color cfg (Some bc) | None \<Rightarrow> orange)"
  by (simp add: parse_color.simps[of cfg v])

lemma parse_color_text_examples:
  "parse_color_text ''#D97706'' = 0xD97706"
  "parse_color_text ''orange'' = 0xD97706"
  "parse_color_text ''bogus'' = 0xD97706"
  "parse_color_text ''#d97706'' = 0xD97706"
  by code_simp+

text \<open>
  C8. \<open>parse_color\<close> yields \<open>0xD97706\<close> for \<open>"#D97706"\<close>, for \<open>"orange"\<close> and (as
  the fallback) for \<open>"bogus"\<close>; for an absent or empty input it yields the parse of the
  brand colour of the configuration (\<open>0xD97706\<close> when no brand colour is configured,
  and \<open>0xD97706\<close> again for the brand colour \<open>"#d97706"\<close> of the default configuration).
\<close>

theorem parse_color_examples:
  "parse_color cfg (Some ''#D97706'') = 0xD97706
   \<and> parse_color cfg (Some ''orange'') = 0xD97706
   \<and> parse_color cfg (Some ''bogus'') = 0xD97706
   \<and> parse_color cfg None =
       (case truthy (brand_color cfg) of
          Some bc \<Rightarrow> parse_color cfg (Some bc) | None \<Rightarrow> 0xD97706)
   \<and> parse_color cfg (Some []) = parse_color cfg None
   \<and> parse_color default_config None = 0xD97706"
proof -
  have 1: "parse_color cfg None =
       (case truthy (brand_color cfg) of
          Some bc \<Rightarrow> parse_color cfg (Some bc) | None \<Rightarrow> 0xD97706)"
    using parse_color_empty[of None cfg]
    by (simp add: truthy_def[of None] orange_val split: option.splits)
  have 2: "parse_color cfg (Some []) = parse_color cfg None"
    using parse_color_empty[of None cfg] parse_color_empty[of "Some []" cfg]
    by (simp add: truthy_def[of None] truthy_def[of "Some []"])
  have 3: "parse_color default_config None = 0xD97706"
    by (simp add: parse_color_empty[of None] truthy_def default_config_def
        parse_color_nonempty parse_color_text_examples)
  show ?thesis
    using 1 2 3 by (simp add: parse_color_nonempty parse_color_text_examples)
qed

text \<open>
  C9. \<open>parse_color\<close> is total (it is a function with a termination proof) and its
  result lies in \<open>[0, 0xFFFFFF]\<close> for every configuration and every input. A named
  colour yields its table entry; a non-empty string of hex digits, with or without
  leading \<open>#\<close> characters and of any length, yields the number it denotes in base 16
  reduced to its low 24 bits; whatever \<open>int\<close> reads is masked to 24 bits; a non-empty
  value that is neither a colour name nor readable by \<open>int\<close> yields \<open>0xD97706\<close>.
\<close>

theorem parse_color_total_range:
  "0 \<le> parse_color cfg v \<and> parse_color cfg v \<le> 0xFFFFFF
   \<and> (s \<noteq> [] \<and> map_of COLOR_MAP (lower (strip s)) = Some c
        \<longrightarrow> parse_color cfg (Some s) = c)
   \<and> (hs \<noteq> [] \<and> list_all is_hex hs
        \<longrightarrow> parse_color cfg (Some (replicate k (CHR ''#'') @ hs)) = hex_number hs mod 2 ^ 24)
   \<and> (s \<noteq> [] \<and> map_of COLOR_MAP (lower (strip s)) = None
        \<and> int16 (lstrip_char (CHR ''#'') (lower (strip s))) = Some n
        \<longrightarrow> parse_color cfg (Some s) = n mod 2 ^ 24)
   \<and> (s \<noteq> [] \<and> map_of COLOR_MAP (lower (strip s)) = None
        \<and> int16 (lstrip_char (CHR ''#'') (lower (strip s))) = None
        \<longrightarrow> parse_color cfg (Some s) = 0xD97706)"
proof -
  have hex: "parse_color cfg (Some (replicate k (CHR ''#'') @ hs)) = hex_number hs mod 2 ^ 24"
    if "hs \<noteq> []" "list_all is_hex hs"
  proof -
    from that(1) have "replicate k (CHR ''#'') @ hs \<noteq> []" by simp
    then have "parse_color cfg (Some (replicate k (CHR ''#'') @ hs))
        = parse_color_text (replicate k (CHR ''#'') @ hs)"
      by (rule parse_color_nonempty)
    then show ?thesis
      by (simp only: parse_color_text_hex[OF that])
  qed
  show ?thesis
    using parse_color_range[of cfg v] hex
    by (auto simp: parse_color_nonempty parse_color_text_def Let_def and_mask24 orange_val)
qed

theorem parse_color_total_range_witness:
  "0 \<le> parse_color default_config None \<and> parse_color default_config None \<le> 0xFFFFFF
   \<and> parse_color default_config (Some '' Gold '') = 0xF59E0B
   \<and> parse_color default_config (Some ''#1D97706'') = 0xD97706
   \<and> parse_color default_config (Some ''-1'') = 0xFFFFFF
   \<and> parse_color default_config (Some ''bogus'') = 0xD97706"
proof -
  have a: "'' Gold '' \<noteq> [] \<and> map_of COLOR_MAP (lower (strip '' Gold '')) = Some 0xF59E0B"
    by code_simp
  have b: "''1D97706'' \<noteq> [] \<and> list_all is_hex ''1D97706''"
    by code_simp
  have b': "hex_number ''1D97706'' mod 2 ^ 24 = 0xD97706"
    by code_simp
  have c: "''-1'' \<noteq> [] \<and> map_of COLOR_MAP (lower (strip ''-1'')) = None
        \<and> int16 (lstrip_char (CHR ''#'') (lower (strip ''-1''))) = Some (- 1)"
    by code_simp
  have d: "''bogus'' \<noteq> [] \<and> map_of COLOR_MAP (lower (strip ''bogus'')) = None
        \<and> int16 (lstrip_char (CHR ''#'') (lower (strip ''bogus''))) = None"
    by code_simp
  from a parse_color_total_range[of default_config None "'' Gold ''" "0xF59E0B"]
  have 1: "0 \<le> parse_color default_config None \<and> parse_color default_config None \<le> 0xFFFFFF
      \<and> parse_color default_config (Some '' Gold '') = 0xF59E0B"
    by simp
  from b b' parse_color_total_range[of default_config None "[]" 0 "''1D97706''" 1]
  have 2: "parse_color default_config (Some ''#1D97706'') = 0xD97706"
    by simp
  from c parse_color_total_range[of default_config None "''-1''" 0 "[]" 0 "- 1"]
  have 3: "parse_color default_config (Some ''-1'') = 0xFFFFFF"
    by simp
  from d parse_color_total_range[of default_config None "''bogus''" 0 "[]" 0 0]
  have 4: "parse_color default_config (Some ''bogus'') = 0xD97706"
    by simp
  from 1 2 3 4 show ?thesis by simp
qed

section \<open>Properties of the channel name\<close>

lemma str_nat_lt10: "n < 10 \<Longrightarrow> str_nat n = [digit_char n]"
  by (simp add: str_nat.simps[of n])

lemma str_nat_ge10: "10 \<le> n \<Longrightarrow> str_nat n = str_nat (n div 10) @ [digit_char (n mod 10)]"
  by (simp add: str_nat.simps[of n])

lemma digit_char_0: "digit_char 0 = CHR ''0''"
  by (simp add: digit_char_def) code_simp

lemma replicate_small:
  "replicate 3 c = [c, c, c]" "replicate 2 c = [c, c]" "replicate (Suc 0) c = [c]"
  by (simp_all add: numeral_3_eq_3 numeral_2_eq_2)

lemma zfill4:
  "zfill 4 [a] = [CHR ''0'', CHR ''0'', CHR ''0'', a]"
  "zfill 4 [a, b] = [CHR ''0'', CHR ''0'', a, b]"
  "zfill 4 [a, b, c] = [CHR ''0'', a, b, c]"
  "zfill 4 [a, b, c, d] = [a, b, c, d]"
  by (simp_all add: zfill_def replicate_small)

lemma str_nat_step:
  "10 ^ Suc k \<le> n \<Longrightarrow>
   str_nat (n div 10 ^ k) = str_nat (n div 10 ^ Suc k) @ [digit_char (n div 10 ^ k mod 10)]"
proof -
  assume "10 ^ Suc k \<le> n"
  then have "10 \<le> n div 10 ^ k"
    by (simp add: less_eq_div_iff_mult_less_eq mult.commute)
  have "n div 10 ^ Suc k = n div (10 ^ k * 10)" by (simp add: mult.commute)
  also have "\<dots> = n div 10 ^ k div 10" by (simp only: div_mult2_eq)
  finally have "n div 10 ^ k div 10 = n div 10 ^ Suc k" by (rule sym)
  with str_nat_ge10[OF \<open>10 \<le> n div 10 ^ k\<close>] show ?thesis
    by (simp only:)
qed

lemma str_nat_last:
  "n < 10 ^ Suc k \<Longrightarrow> str_nat (n div 10 ^ k) = [digit_char (n div 10 ^ k)]"
proof -
  assume "n < 10 ^ Suc k"
  then have "n div 10 ^ k < 10"
    by (simp add: less_mult_imp_div_less mult.commute)
  then show ?thesis by (rule str_nat_lt10)
qed

lemma four_digits:
  assumes "n < 10000"
  shows "zfill 4 (str_nat n) =
    [digit_char (n div 1000), digit_char (n div 100 mod 10), digit_char (n div 10 mod 10),
     digit_char (n mod 10)]"
proof -
  consider "n < 10" | "10 \<le> n" "n < 100" | "100 \<le> n" "n < 1000" | "1000 \<le> n"
    by linarith
  then show ?thesis
  proof cases
    case 1
    then have "str_nat n = [digit_char n]" by (rule str_nat_lt10)
    with 1 show ?thesis by (simp add: zfill4 digit_char_0)
  next
    case 2
    have a: "str_nat n = str_nat (n div 10) @ [digit_char (n mod 10)]"
      using str_nat_step[of 0 n] 2 by simp
    have b: "str_nat (n div 10) = [digit_char (n div 10)]"
      using str_nat_last[of n 1] 2 by simp
    from 2 show ?thesis by (simp add: a b zfill4 digit_char_0)
  next
    case 3
    have a: "str_nat n = str_nat (n div 10) @ [digit_char (n mod 10)]"
      using str_nat_step[of 0 n] 3 by simp
    have b: "str_nat (n div 10) = str_nat (n div 100) @ [digit_char (n div 10 mod 10)]"
      using str_nat_step[of 1 n] 3 by simp
    have c: "str_nat (n div 100) = [digit_char (n div 100)]"
      using str_nat_last[of n 2] 3 by simp
    from 3 show ?thesis by (simp add: a b c zfill4 digit_char_0)
  next
    case 4
    have a: "str_nat n = str_nat (n div 10) @ [digit_char (n mod 10)]"
      using str_nat_step[of 0 n] 4 by simp
    have b: "str_nat (n div 10) = str_nat (n div 100) @ [digit_char (n div 10 mod 10)]"
      using str_nat_step[of 1 n] 4 by simp
    have c: "str_nat (n div 100) = str_nat (n div 1000) @ [digit_char (n div 100 mod 10)]"
      using str_nat_step[of 2 n] 4 by simp
    have d: "str_nat (n div 1000) = [digit_char (n div 1000)]"
      using str_nat_last[of n 3] assms by simp
    show ?thesis by (simp add: a b c d zfill4)
  qed
qed

lemma format_04d_mod:
  "format_04d (i mod 10000) =
    (let n = nat (i mod 10000) in
     [digit_char (n div 1000), digit_char (n div 100 mod 10), digit_char (n div 10 mod 10),
      digit_char (n mod 10)])"
proof -
  have "0 \<le> i mod 10000" "i mod 10000 < 10000" by simp_all
  then have "nat (i mod 10000) < 10000" by linarith
  have "\<not> i mod 10000 < 0" by simp
  with four_digits[OF \<open>nat (i mod 10000) < 10000\<close>] show ?thesis
    by (simp only: format_04d_def Let_def if_False)
qed

lemma digit_chars_checked: "list_all (\<lambda>d. digit_char d \<in> set ''0123456789'') [0..<10]"
  by code_simp

lemma digit_char_digit: "d < 10 \<Longrightarrow> digit_char d \<in> set ''0123456789''"
  using digit_chars_checked by (simp add: list_all_iff)

lemma lower_take: "lower (take n s) = take n (lower s)"
  by (simp add: lower_def take_map)

text \<open>
  C6. The name of a new ticket channel is the lowercased prefix (the configured one, or
  \<open>ticket\<close> when none or an empty one is configured), a hyphen, the first 20 characters
  of the opener's handle lowercased, a hyphen, and the interaction id modulo 10000
  written with exactly four decimal digits, for every handle and every interaction id.
  Taking the first 20 characters and lowercasing commute. It is the name that Open
  passes to the channel creation.
\<close>

theorem channel_name_format:
  "channel_name cfg opener ix =
     lower (case truthy (ticket_prefix cfg) of None \<Rightarrow> ''ticket'' | Some p \<Rightarrow> p)
       @ ''-'' @ take 20 (lower (user_name opener)) @ ''-''
       @ [digit_char (nat (ix_id ix mod 10000) div 1000),
          digit_char (nat (ix_id ix mod 10000) div 100 mod 10),
          digit_char (nat (ix_id ix mod 10000) div 10 mod 10),
          digit_char (nat (ix_id ix mod 10000) mod 10)]
   \<and> take 20 (lower (user_name opener)) = lower (take 20 (user_name opener))
   \<and> length (take 20 (lower (user_name opener))) = min 20 (length (user_name opener))
   \<and> set [digit_char (nat (ix_id ix mod 10000) div 1000),
          digit_char (nat (ix_id ix mod 10000) div 100 mod 10),
          digit_char (nat (ix_id ix mod 10000) div 10 mod 10),
          digit_char (nat (ix_id ix mod 10000) mod 10)] \<subseteq> set ''0123456789''
   \<and> (ix_guild ix = Some g \<and> category_id cfg \<noteq> IdMalformed
        \<and> support_role_id cfg \<noteq> IdMalformed
       \<longrightarrow> hd (fst (create_ticket_channel cfg env ix opener reason)) =
             CreateTextChannel (channel_name cfg opener ix)
               (category_of (case category_id cfg of IdValue n \<Rightarrow> get_channel g n | _ \<Rightarrow> None))
               (ticket_overwrites g opener
                  (case support_role_id cfg of IdValue n \<Rightarrow> get_role g n | _ \<Rightarrow> None))
               (open_reason opener))"
proof -
  let ?n = "nat (ix_id ix mod 10000)"
  have "0 \<le> ix_id ix mod 10000" "ix_id ix mod 10000 < 10000" by simp_all
  then have n: "?n < 10000" by linarith
  have 1: "?n div 1000 < 10" using n by simp
  have 2: "?n div 100 mod 10 < 10" "?n div 10 mod 10 < 10" "?n mod 10 < 10" by simp_all
  have digs: "set [digit_char (?n div 1000), digit_char (?n div 100 mod 10),
      digit_char (?n div 10 mod 10), digit_char (?n mod 10)] \<subseteq> set ''0123456789''"
    using digit_char_digit[OF 1] digit_char_digit[OF 2(1)] digit_char_digit[OF 2(2)]
      digit_char_digit[OF 2(3)] by simp
  have name: "channel_name cfg opener ix =
     lower (case truthy (ticket_prefix cfg) of None \<Rightarrow> ''ticket'' | Some p \<Rightarrow> p)
       @ ''-'' @ take 20 (lower (user_name opener)) @ ''-''
       @ [digit_char (?n div 1000), digit_char (?n div 100 mod 10),
          digit_char (?n div 10 mod 10), digit_char (?n mod 10)]"
    by (simp only: channel_name_def naming_prefix_def format_04d_mod Let_def lower_take)
  have len: "length (take 20 (lower (user_name opener))) = min 20 (length (user_name opener))"
    by (simp add: lower_def min.commute)
  have cr: "hd (fst (create_ticket_channel cfg env ix opener reason)) =
             CreateTextChannel (channel_name cfg opener ix)
               (category_of (case category_id cfg of IdValue n \<Rightarrow> get_channel g n | _ \<Rightarrow> None))
               (ticket_overwrites g opener
                  (case support_role_id cfg of IdValue n \<Rightarrow> get_role g n | _ \<Rightarrow> None))
               (open_reason opener)"
    if "ix_guild ix = Some g" "category_id cfg \<noteq> IdMalformed" "support_role_id cfg \<noteq> IdMalformed"
    using that
    by (cases "category_id cfg"; cases "support_role_id cfg"; cases "create_result env")
       (simp_all add: create_ticket_channel_def resolve_id_def attempt_def and_then_def Let_def)
  from name digs len cr show ?thesis
    by (simp only: lower_take simp_thms) blast
qed


end
